theory Spec2Isabelle
  imports Main "HOL-Library.Char_ord" "HOL-Library.List_Lexorder" "HOL-Library.Multiset"
begin

section \<open>Data model of the vegetation survey summariser\<close>

text \<open>
  A spreadsheet cell holds nothing (\<open>None\<close>), a number or a text. The numbers of a survey
  sheet are only copied, never computed with, so an integer stands for the numeric payload.
\<close>

datatype cell = CNone | CNum int | CStr string

text \<open>
  The survey date is a \<open>datetime\<close>; the program only compares dates (\<open><\<close>, \<open>>\<close>,
  \<open>==\<close>), so a date is modelled by an integer position on the time line. The examples
  write the day \<open>2020-03-01\<close> as the integer \<open>20200301\<close>, which preserves the order.
\<close>

type_synonym date = int

text \<open>Class \<open>Species\<close>: the attribute \<open>id\<close> is named \<open>id_sp\<close> here.\<close>

record Species =
  id_sp :: string
  dnf :: cell
  df :: cell
  fu :: cell

definition Species_init :: "string \<Rightarrow> cell \<Rightarrow> cell \<Rightarrow> cell \<Rightarrow> Species" where
  "Species_init name non_flowering_density flowering_density flowering_units =
     \<lparr> id_sp = name,
       dnf = (if non_flowering_density = CNone then CNum 0 else non_flowering_density),
       df = (if flowering_density = CNone then CNum 0 else flowering_density),
       fu = (if flowering_units = CNone then CNum 0 else flowering_units) \<rparr>"

text \<open>Class \<open>Survey\<close>: one object per sheet.\<close>

record Survey =
  site :: string
  date :: date
  species :: "Species list"
  phen_num :: int

text \<open>
  The worksheet under construction: the value of the cell at (row, column), both counted
  from 1. A cell never written reads as \<open>None\<close>.
\<close>

type_synonym worksheet = "nat \<times> nat \<Rightarrow> cell"

definition create_sheet :: worksheet where
  "create_sheet = (\<lambda>_. CNone)"

text \<open>
  The state of a run: the two class attributes of \<open>Survey\<close> (the registry) and the
  summary sheet. The list \<open>all_surveys\<close> holds the survey objects themselves; an object
  is referred to by its position in that list.
\<close>

record state =
  all_surveys :: "Survey list"
  survey_dates :: "date list"
  sum_ws :: worksheet

definition init_state :: state where
  "init_state = \<lparr> all_surveys = [], survey_dates = [], sum_ws = create_sheet \<rparr>"

definition VARIABLE_LIST :: "string list" where
  "VARIABLE_LIST = [''DNF'', ''DF'', ''FU'']"

definition NUM_PHENOLOGIES :: nat where
  "NUM_PHENOLOGIES = 2"

section \<open>The library functions the program calls\<close>

text \<open>
  \<open>bisect.insort\<close> is \<open>insort_right\<close>: a binary search for the insertion point
  (\<open>bisect_right\<close> with \<open>lo = 0\<close>, \<open>hi = len(a)\<close>) followed by \<open>a.insert(lo, x)\<close>.
  The search does not check that its argument is sorted.
\<close>

function bisect_right :: "date list \<Rightarrow> date \<Rightarrow> nat \<Rightarrow> nat \<Rightarrow> nat" where
  "bisect_right a x lo hi =
     (if lo < hi then
        (let mid = (lo + hi) div 2 in
         if x < a ! mid then bisect_right a x lo mid
         else bisect_right a x (mid + 1) hi)
      else lo)"
  by pat_completeness auto
termination
  by (relation "measure (\<lambda>(a, x, lo, hi). hi - lo)") auto

declare bisect_right.simps [simp del]

definition insort_py :: "date list \<Rightarrow> date \<Rightarrow> date list" where
  "insort_py a x = (let lo = bisect_right a x 0 (length a) in take lo a @ [x] @ drop lo a)"

text \<open>\<open>list.index(x)\<close>: the position of the first occurrence, \<open>ValueError\<close> when absent.\<close>

fun index_py :: "'a list \<Rightarrow> 'a \<Rightarrow> nat option" where
  "index_py [] x = None"
| "index_py (y # ys) x = (if y = x then Some 0 else map_option Suc (index_py ys x))"

text \<open>\<open>str.split(sep)\<close> for a separator of one character.\<close>

fun split_py :: "char \<Rightarrow> string \<Rightarrow> string list" where
  "split_py c [] = [[]]"
| "split_py c (x # xs) =
     (if x = c then [] # split_py c xs
      else (case split_py c xs of w # ws \<Rightarrow> (x # w) # ws | [] \<Rightarrow> [[x]]))"

section \<open>The survey registry\<close>

text \<open>
  \<open>get_dates_site_surveyed\<close> and \<open>get_other_surveys_from_site\<close> run before the new
  survey is appended, so they see the earlier surveys only. The second returns references
  to the objects of \<open>all_surveys\<close>: their positions.
\<close>

definition get_dates_site_surveyed :: "Survey \<Rightarrow> state \<Rightarrow> date list" where
  "get_dates_site_surveyed self st =
     map date (filter (\<lambda>other_survey. site self = site other_survey) (all_surveys st))"

definition get_other_surveys_from_site :: "Survey \<Rightarrow> state \<Rightarrow> nat list" where
  "get_other_surveys_from_site self st =
     filter (\<lambda>i. site self = site (all_surveys st ! i)) [0..<length (all_surveys st)]"

text \<open>\<open>surv.phen_num += k\<close> for every referenced object \<open>surv\<close>, in order.\<close>

definition add_phen_num :: "int \<Rightarrow> nat list \<Rightarrow> Survey list \<Rightarrow> Survey list" where
  "add_phen_num k refs objs =
     fold (\<lambda>i l. l[i := (l ! i)\<lparr>phen_num := phen_num (l ! i) + k\<rparr>]) refs objs"

datatype error = ValueError

text \<open>
  \<open>Survey._calc_num_phenologies(survey)\<close>: returns the survey with its \<open>phen_num\<close> set,
  and the state with the other surveys of the site renumbered and the date recorded.
\<close>

definition calc_num_phenologies :: "Survey \<Rightarrow> state \<Rightarrow> error + (Survey \<times> state)" where
  "calc_num_phenologies survey st =
     (let other_surveys = get_other_surveys_from_site survey st;
          dates_surveyed = insort_py (get_dates_site_surveyed survey st) (date survey)
      in case index_py dates_surveyed (date survey) of
           None \<Rightarrow> Inl ValueError
         | Some i \<Rightarrow>
            (let survey' = survey\<lparr>phen_num := int i + 1\<rparr>;
                 surveys_before = filter (\<lambda>j. date (all_surveys st ! j) < date survey) other_surveys;
                 surveys_after = filter (\<lambda>j. date (all_surveys st ! j) > date survey) other_surveys;
                 objs = add_phen_num 1 surveys_after (add_phen_num (- 1) surveys_before (all_surveys st));
                 dates = (if date survey \<notin> set (survey_dates st)
                          then insort_py (survey_dates st) (date survey) else survey_dates st)
             in Inr (survey', st\<lparr>all_surveys := objs, survey_dates := dates\<rparr>)))"

text \<open>
  \<open>Survey(site, date, species_comp)\<close>: the constructor numbers the survey, then appends
  it to \<open>all_surveys\<close>. The attribute \<open>phen_num\<close> does not exist before the numbering;
  the record starts it at 0, which nothing reads.
\<close>

definition Survey_init :: "string \<Rightarrow> date \<Rightarrow> Species list \<Rightarrow> state \<Rightarrow> error + state" where
  "Survey_init site_name survey_date species_comp st =
     (case calc_num_phenologies
             \<lparr> site = site_name, date = survey_date, species = species_comp, phen_num = 0 \<rparr> st of
        Inl e \<Rightarrow> Inl e
      | Inr (self, st') \<Rightarrow> Inr (st'\<lparr>all_surveys := all_surveys st' @ [self]\<rparr>))"

text \<open>Registering several surveys one after the other, stopping at the first error.\<close>

fun register_all :: "(string \<times> date \<times> Species list) list \<Rightarrow> state \<Rightarrow> error + state" where
  "register_all [] st = Inr st"
| "register_all ((s, d, sp) # rest) st =
     (case Survey_init s d sp st of Inl e \<Rightarrow> Inl e | Inr st' \<Rightarrow> register_all rest st')"

section \<open>Ingestion\<close>

text \<open>
  An input sheet as the program reads it: the site name in cell B2, the survey date in
  cell D2 and, after three header rows, one row per species with the columns A to D.
\<close>

record in_sheet =
  B2 :: string
  D2 :: date
  data_rows :: "(string \<times> cell \<times> cell \<times> cell) list"

definition get_survey_species :: "in_sheet \<Rightarrow> Species list" where
  "get_survey_species sheet =
     map (\<lambda>(species_name, dnf, df, fu). Species_init species_name dnf df fu) (data_rows sheet)"

text \<open>
  The loop of \<open>main\<close> over the sheets; the accumulators are \<open>all_species\<close> and
  \<open>all_sites\<close>.
\<close>

fun ingest :: "in_sheet list \<Rightarrow> Species list \<Rightarrow> string list \<Rightarrow> state
    \<Rightarrow> error + (Species list \<times> string list \<times> state)" where
  "ingest [] all_species all_sites st = Inr (all_species, all_sites, st)"
| "ingest (sheet # wb) all_species all_sites st =
     (let site_name = B2 sheet;
          all_sites = all_sites @ [site_name];
          survey_date = D2 sheet;
          species_comp = get_survey_species sheet;
          all_species = all_species @ species_comp
      in case Survey_init site_name survey_date species_comp st of
           Inl e \<Rightarrow> Inl e
         | Inr st' \<Rightarrow> ingest wb all_species all_sites st')"

section \<open>The summary builder\<close>

definition write_summary_headers :: "string list \<Rightarrow> state \<Rightarrow> state" where
  "write_summary_headers all_species st =
     (let ws = (sum_ws st)((1, 1) := CStr ''Site'');
          ws = ws((1, 2) := CStr ''Variable'');
          ws = ws((1, 3) := CStr ''Phenology'');
          col_gen = [4..<length all_species + 3 + 1]
      in st\<lparr>sum_ws := fold (\<lambda>(col, species) ws. ws((1, col) := CStr species))
                          (zip col_gen all_species) ws\<rparr>)"

text \<open>
  The three axis writers share one loop: the values are zipped with the sheet rows
  \<open>2 .. len + 1\<close> and each value goes to the first cell of its row slice, which is the
  column \<open>min_col\<close>.
\<close>

definition write_rows :: "nat \<Rightarrow> cell list \<Rightarrow> worksheet \<Rightarrow> worksheet" where
  "write_rows min_col vals ws =
     fold (\<lambda>(row, v) ws. ws((row, min_col) := v)) (zip [2..<length vals + 1 + 1] vals) ws"

definition name_copy :: "string list \<Rightarrow> string list" where
  "name_copy site_names = concat (replicate (length VARIABLE_LIST * NUM_PHENOLOGIES) site_names)"

definition write_sites_to_rows :: "string list \<Rightarrow> state \<Rightarrow> state" where
  "write_sites_to_rows site_names st =
     st\<lparr>sum_ws := write_rows 1 (map CStr (name_copy site_names)) (sum_ws st)\<rparr>"

definition variables :: "nat \<Rightarrow> string list" where
  "variables num_sites =
     sort (concat (replicate NUM_PHENOLOGIES (concat (replicate num_sites VARIABLE_LIST))))"

definition write_variables_to_rows :: "nat \<Rightarrow> state \<Rightarrow> state" where
  "write_variables_to_rows num_sites st =
     st\<lparr>sum_ws := write_rows 2 (map CStr (variables num_sites)) (sum_ws st)\<rparr>"

definition phenology_list :: "nat \<Rightarrow> int list" where
  "phenology_list num_sites =
     concat (replicate (length VARIABLE_LIST)
       (sort (concat (replicate num_sites (map int [1..<NUM_PHENOLOGIES + 1])))))"

definition write_phenology_to_rows :: "nat \<Rightarrow> state \<Rightarrow> state" where
  "write_phenology_to_rows num_sites st =
     st\<lparr>sum_ws := write_rows 3 (map CNum (phenology_list num_sites)) (sum_ws st)\<rparr>"

text \<open>
  The body of the inner loop of \<open>write_data_to_rows\<close> up to the assignment: the datum to
  write, or \<open>None\<close> on the paths that write nothing.
\<close>

definition find_datum :: "Survey list \<Rightarrow> cell \<Rightarrow> cell \<Rightarrow> cell \<Rightarrow> string \<Rightarrow> cell option" where
  "find_datum survey_list site_name variable phenology species_name =
     (let survey = filter (\<lambda>survey. CStr (site survey) = site_name
                                    \<and> CNum (phen_num survey) = phenology) survey_list
      in if length survey = 1 then
           (let survey = hd survey;
                species_obj = filter (\<lambda>species. id_sp species = species_name) (species survey)
            in if length species_obj = 1 then
                 (let species_obj = hd species_obj
                  in Some (if variable = CStr ''DNF'' then dnf species_obj
                           else if variable = CStr ''DF'' then df species_obj
                           else if variable = CStr ''FU'' then fu species_obj
                           else CNone))
               else None)
         else None)"

definition fill_row :: "Survey list \<Rightarrow> string list \<Rightarrow> nat \<Rightarrow> worksheet \<Rightarrow> worksheet" where
  "fill_row survey_list species_list row ws =
     (let site_name = ws (row, 1);
          variable = ws (row, 2);
          phenology = ws (row, 3)
      in fold (\<lambda>(idx, species_name) ws.
                 case find_datum survey_list site_name variable phenology species_name of
                   Some datum \<Rightarrow> ws((row, idx + 3 + 1) := datum)
                 | None \<Rightarrow> ws)
              (enumerate 0 species_list) ws)"

definition write_data_to_rows :: "nat \<Rightarrow> string list \<Rightarrow> state \<Rightarrow> state" where
  "write_data_to_rows num_sites species_list st =
     (let num_rows = num_sites * NUM_PHENOLOGIES * length VARIABLE_LIST
      in st\<lparr>sum_ws := fold (fill_row (all_surveys st) species_list)
                          [2..<num_rows + 1 + 1] (sum_ws st)\<rparr>)"

text \<open>
  The second half of \<open>main\<close>: from the accumulated species and site names to the filled
  Summary sheet. \<open>sorted(set(xs))\<close> is the sorted list of the distinct elements.
\<close>

definition summarize :: "Species list \<Rightarrow> string list \<Rightarrow> state \<Rightarrow> state" where
  "summarize all_species all_sites st =
     (let species_ids = sort (remdups (map id_sp all_species));
          all_sites = sort (remdups all_sites);
          st = st\<lparr>sum_ws := create_sheet\<rparr>;
          num_sites = length all_sites;
          st = write_summary_headers species_ids st;
          st = write_sites_to_rows all_sites st;
          st = write_variables_to_rows num_sites st;
          st = write_phenology_to_rows num_sites st
      in write_data_to_rows num_sites species_ids st)"

text \<open>
  The path of the saved workbook: \<open>file_name, extension = data.split('.')\<close> unpacks a list
  of exactly two elements and raises \<open>ValueError\<close> on any other length.
\<close>

definition save_path :: "string \<Rightarrow> error + string" where
  "save_path data =
     (case split_py CHR ''.'' data of
        [file_name, extension] \<Rightarrow> Inr (file_name @ ''_summarized'' @ ''.'' @ extension)
      | _ \<Rightarrow> Inl ValueError)"

section \<open>Observations and example inputs\<close>

text \<open>What a test of the registry reads: site, date and \<open>phen_num\<close> of every survey.\<close>

definition numbering :: "error + state \<Rightarrow> error + (string \<times> date \<times> int) list" where
  "numbering res =
     (case res of
        Inl e \<Rightarrow> Inl e
      | Inr st \<Rightarrow> Inr (map (\<lambda>survey. (site survey, date survey, phen_num survey)) (all_surveys st)))"

text \<open>A registry holding one survey of site B and one of site A.\<close>

definition two_site_state :: state where
  "two_site_state =
     \<lparr> all_surveys = [\<lparr>site = ''B'', date = 20200301, species = [], phen_num = 1\<rparr>,
                      \<lparr>site = ''A'', date = 20200201, species = [], phen_num = 1\<rparr>],
       survey_dates = [20200201, 20200301],
       sum_ws = create_sheet \<rparr>"

text \<open>A registry holding one survey of site A with one species.\<close>

definition grass :: Species where
  "grass = \<lparr> id_sp = ''Grass'', dnf = CNum 3, df = CNum 7, fu = CNum 5 \<rparr>"

definition one_survey_state :: state where
  "one_survey_state =
     \<lparr> all_surveys = [\<lparr>site = ''A'', date = 20200101, species = [grass], phen_num = 1\<rparr>],
       survey_dates = [20200101],
       sum_ws = create_sheet \<rparr>"

section \<open>Lemmas on the registry\<close>

lemma index_py_found: "x \<in> set xs \<Longrightarrow> \<exists>i. index_py xs x = Some i"
  by (induction xs) auto

lemma insort_py_mem: "x \<in> set (insort_py a x)"
  by (simp add: insort_py_def Let_def)

lemma add_phen_num_length: "length (add_phen_num k refs objs) = length objs"
  unfolding add_phen_num_def by (induction refs arbitrary: objs) auto

lemma add_phen_num_nth_other: "j \<notin> set refs \<Longrightarrow> add_phen_num k refs objs ! j = objs ! j"
  unfolding add_phen_num_def by (induction refs arbitrary: objs) auto

lemma other_surveys_site:
  "site (all_surveys st ! j) \<noteq> site survey
     \<Longrightarrow> (j \<in> set (get_other_surveys_from_site survey st)) = False"
  by (auto simp: get_other_surveys_from_site_def)

lemma calc_num_phenologies_frame:
  "\<exists>self st'. calc_num_phenologies survey st = Inr (self, st')
      \<and> length (all_surveys st') = length (all_surveys st)
      \<and> sum_ws st' = sum_ws st
      \<and> (\<forall>i. site (all_surveys st ! i) \<noteq> site survey \<longrightarrow> all_surveys st' ! i = all_surveys st ! i)"
proof -
  obtain i where i: "index_py (insort_py (get_dates_site_surveyed survey st) (date survey)) (date survey) = Some i"
    using index_py_found [OF insort_py_mem] by blast
  show ?thesis
    by (simp add: calc_num_phenologies_def Let_def i add_phen_num_length add_phen_num_nth_other
          other_surveys_site)
qed


section \<open>Lemmas on the summary sheet\<close>

lemma fold_write_col:
  "fold (\<lambda>(row, v) ws. ws((row, c) := v)) (zip [k..<k + length vs] vs) ws (r, c')
     = (if c' = c \<and> k \<le> r \<and> r < k + length vs then vs ! (r - k) else ws (r, c'))"
proof (induction vs arbitrary: k ws)
  case Nil
  then show ?case by auto
next
  case (Cons v vs)
  have u: "[k..<k + length (v # vs)] = k # [Suc k..<Suc k + length vs]"
    by (subst upt_rec) simp
  show ?case
    unfolding u using Cons.IH [of "Suc k" "ws((k, c) := v)"]
    by (auto simp: nth_Cons' Suc_diff_le)
qed

lemma write_rows_apply:
  "write_rows c vals ws (r, c')
     = (if c' = c \<and> 2 \<le> r \<and> r < length vals + 2 then vals ! (r - 2) else ws (r, c'))"
  using fold_write_col [of c 2 vals ws r c'] by (simp add: write_rows_def)

lemma fold_header_other_row:
  "r \<noteq> h \<Longrightarrow> fold (\<lambda>(col, species) ws. ws((h, col) := CStr species)) xs ws (r, c) = ws (r, c)"
  by (induction xs arbitrary: ws) auto

lemma headers_other_row:
  "r \<noteq> 1 \<Longrightarrow> sum_ws (write_summary_headers sp st) (r, c) = sum_ws st (r, c)"
  by (simp add: write_summary_headers_def Let_def fold_header_other_row)

lemma fold_fill_cells:
  "fold (\<lambda>(idx, species_name) ws.
           case F species_name of Some datum \<Rightarrow> ws((row, idx + 3 + 1) := datum) | None \<Rightarrow> ws)
        (enumerate k xs) ws (r, c)
     = (if r = row \<and> k + 4 \<le> c \<and> c < k + 4 + length xs
        then (case F (xs ! (c - (k + 4))) of Some datum \<Rightarrow> datum | None \<Rightarrow> ws (r, c))
        else ws (r, c))"
proof (induction xs arbitrary: k ws)
  case Nil
  then show ?case by auto
next
  case (Cons x xs)
  show ?case
    using Cons.IH [of "Suc k" "case F x of Some datum \<Rightarrow> ws((row, k + 3 + 1) := datum) | None \<Rightarrow> ws"]
    by (auto simp: nth_Cons' Suc_diff_le split: option.splits)
qed

lemma fill_row_apply:
  "fill_row S sp row ws (r, c)
     = (if r = row \<and> 4 \<le> c \<and> c < 4 + length sp
        then (case find_datum S (ws (row, 1)) (ws (row, 2)) (ws (row, 3)) (sp ! (c - 4)) of
                Some datum \<Rightarrow> datum | None \<Rightarrow> ws (r, c))
        else ws (r, c))"
  using fold_fill_cells [where F = "find_datum S (ws (row, 1)) (ws (row, 2)) (ws (row, 3))"
      and row = row and k = 0 and xs = sp and ws = ws and r = r and c = c]
  by (simp add: fill_row_def Let_def)

lemma fold_fill_rows:
  "distinct rows \<Longrightarrow>
   fold (fill_row S sp) rows ws (r, c)
     = (if r \<in> set rows \<and> 4 \<le> c \<and> c < 4 + length sp
        then (case find_datum S (ws (r, 1)) (ws (r, 2)) (ws (r, 3)) (sp ! (c - 4)) of
                Some datum \<Rightarrow> datum | None \<Rightarrow> ws (r, c))
        else ws (r, c))"
proof (induction rows arbitrary: ws)
  case Nil
  then show ?case by simp
next
  case (Cons row rows)
  then have d: "distinct rows" and n: "row \<notin> set rows" by auto
  show ?case
    using n by (auto simp: Cons.IH [OF d] fill_row_apply split: option.splits)
qed

lemma length_concat_replicate: "length (concat (replicate k xs)) = k * length xs"
  by (induction k) auto

lemma mset_concat_replicate: "mset (concat (replicate k xs)) = repeat_mset k (mset xs)"
  by (induction k) auto

lemma variables_blocks:
  "variables n = replicate (2 * n) ''DF'' @ replicate (2 * n) ''DNF'' @ replicate (2 * n) ''FU''"
  unfolding variables_def
  by (rule properties_for_sort)
     (auto simp: mset_concat_replicate VARIABLE_LIST_def NUM_PHENOLOGIES_def sorted_append
           multiset_eq_iff)

lemma phenology_blocks:
  "phenology_list n = concat (replicate 3 (replicate n 1 @ replicate n 2))"
proof -
  have "sort (concat (replicate n [1, 2::int])) = replicate n 1 @ replicate n 2"
    by (rule properties_for_sort) (auto simp: mset_concat_replicate sorted_append multiset_eq_iff)
  moreover have "map int [1..<NUM_PHENOLOGIES + 1] = [1, 2]"
    unfolding NUM_PHENOLOGIES_def by (simp add: upt_rec)
  ultimately show ?thesis
    by (simp add: phenology_list_def VARIABLE_LIST_def numeral_3_eq_3)
qed

lemma fold_write_header:
  "fold (\<lambda>(col, species) ws. ws((h, col) := CStr species)) (zip [k..<k + length xs] xs) ws (r, c)
     = (if r = h \<and> k \<le> c \<and> c < k + length xs then CStr (xs ! (c - k)) else ws (r, c))"
proof (induction xs arbitrary: k ws)
  case Nil
  then show ?case by auto
next
  case (Cons x xs)
  have u: "[k..<k + length (x # xs)] = k # [Suc k..<Suc k + length xs]"
    by (subst upt_rec) simp
  show ?case
    unfolding u using Cons.IH [of "Suc k" "ws((h, k) := CStr x)"]
    by (auto simp: nth_Cons' Suc_diff_le)
qed

lemma headers_first_row:
  "4 \<le> c \<Longrightarrow> c < 4 + length sp \<Longrightarrow>
     sum_ws (write_summary_headers sp st) (Suc 0, c) = CStr (sp ! (c - 4))"
  by (simp add: write_summary_headers_def Let_def fold_write_header)

lemma length_name_copy: "length (name_copy sites) = 6 * length sites"
  by (simp add: name_copy_def VARIABLE_LIST_def NUM_PHENOLOGIES_def length_concat_replicate)

lemma length_variables: "length (variables n) = 6 * n"
  by (simp add: variables_def VARIABLE_LIST_def NUM_PHENOLOGIES_def length_concat_replicate)

lemma length_phenology_list: "length (phenology_list n) = 6 * n"
  by (simp add: phenology_blocks length_concat_replicate)

lemma find_datum_cases:
  "find_datum S (CStr X) (CStr V) (CNum K) Y
     = (case filter (\<lambda>s. site s = X \<and> phen_num s = K) S of
          [s] \<Rightarrow> (case filter (\<lambda>sp. id_sp sp = Y) (species s) of
                    [sp] \<Rightarrow> Some (if V = ''DNF'' then dnf sp
                                  else if V = ''DF'' then df sp
                                  else if V = ''FU'' then fu sp else CNone)
                  | _ \<Rightarrow> None)
        | _ \<Rightarrow> None)"
  by (auto simp: find_datum_def Let_def split: list.splits)

lemma summarize_unfold:
  "sum_ws (summarize all_species all_sites st)
     = fold (fill_row (all_surveys st) (sort (remdups (map id_sp all_species))))
         [2..<6 * length (remdups all_sites) + 2]
         (write_rows 3 (map CNum (phenology_list (length (remdups all_sites))))
           (write_rows 2 (map CStr (variables (length (remdups all_sites))))
             (write_rows 1 (map CStr (name_copy (sort (remdups all_sites))))
               (sum_ws (write_summary_headers (sort (remdups (map id_sp all_species)))
                   (st\<lparr>sum_ws := create_sheet\<rparr>))))))"
  by (simp add: summarize_def Let_def write_sites_to_rows_def write_variables_to_rows_def
      write_phenology_to_rows_def write_data_to_rows_def VARIABLE_LIST_def NUM_PHENOLOGIES_def
      write_summary_headers_def mult.commute)

lemma filled_cells:
  assumes H: "\<And>c. H (r, c) = CNone"
    and len: "length N = m" "length V = m" "length P = m"
    and r: "2 \<le> r"
  shows "fold (fill_row S ids) [2..<m + 2]
           (write_rows 3 (map CNum P) (write_rows 2 (map CStr V) (write_rows 1 (map CStr N) H))) (r, c)
     = (if r < m + 2 then
          (if c = 1 then CStr (N ! (r - 2))
           else if c = 2 then CStr (V ! (r - 2))
           else if c = 3 then CNum (P ! (r - 2))
           else if 4 \<le> c \<and> c < 4 + length ids then
             (case find_datum S (CStr (N ! (r - 2))) (CStr (V ! (r - 2))) (CNum (P ! (r - 2)))
                     (ids ! (c - 4)) of
                Some datum \<Rightarrow> datum | None \<Rightarrow> CNone)
           else CNone)
        else CNone)"
proof -
  define A where "A = write_rows 3 (map CNum P) (write_rows 2 (map CStr V) (write_rows 1 (map CStr N) H))"
  have A: "A (r, c') = (if r < m + 2 then
                          (if c' = 1 then CStr (N ! (r - 2))
                           else if c' = 2 then CStr (V ! (r - 2))
                           else if c' = 3 then CNum (P ! (r - 2))
                           else CNone)
                        else CNone)" for c'
    using r by (simp add: A_def write_rows_apply len H)
  have F: "fold (fill_row S ids) [2..<m + 2] A (r, c)
     = (if r \<in> set [2..<m + 2] \<and> 4 \<le> c \<and> c < 4 + length ids
        then (case find_datum S (A (r, 1)) (A (r, 2)) (A (r, 3)) (ids ! (c - 4)) of
                Some datum \<Rightarrow> datum | None \<Rightarrow> A (r, c))
        else A (r, c))"
    by (rule fold_fill_rows) simp
  show ?thesis
    unfolding A_def [symmetric] F A using r by auto
qed

lemma summarize_cells:
  assumes "2 \<le> r"
  shows "sum_ws (summarize all_species all_sites st) (r, c)
     = (if r < 6 * length (remdups all_sites) + 2 then
          (if c = 1 then CStr (name_copy (sort (remdups all_sites)) ! (r - 2))
           else if c = 2 then CStr (variables (length (remdups all_sites)) ! (r - 2))
           else if c = 3 then CNum (phenology_list (length (remdups all_sites)) ! (r - 2))
           else if 4 \<le> c \<and> c < 4 + length (sort (remdups (map id_sp all_species))) then
             (case find_datum (all_surveys st)
                     (CStr (name_copy (sort (remdups all_sites)) ! (r - 2)))
                     (CStr (variables (length (remdups all_sites)) ! (r - 2)))
                     (CNum (phenology_list (length (remdups all_sites)) ! (r - 2)))
                     (sort (remdups (map id_sp all_species)) ! (c - 4)) of
                Some datum \<Rightarrow> datum | None \<Rightarrow> CNone)
           else CNone)
        else CNone)"
  unfolding summarize_unfold
proof (rule filled_cells)
  show "sum_ws (write_summary_headers (sort (remdups (map id_sp all_species)))
          (st\<lparr>sum_ws := create_sheet\<rparr>)) (r, c') = CNone" for c'
    using assms by (simp add: headers_other_row create_sheet_def)
qed (simp_all add: assms length_name_copy length_variables length_phenology_list)

section \<open>The numbering of the surveys of a site\<close>

text \<open>
  C1: whatever the order of registration, the surveys of a site sorted by \<open>phen_num\<close>
  are in date order; the surveys of site A dated 2020-03-01, 2020-01-01 and 2020-02-01,
  registered in this order, end with the numbers 3, 1 and 2. The program is run on
  this scenario: it ends with the numbers 3, 0 and 3.
\<close>

theorem numbering_reverse_then_middle:
  "numbering (register_all [(''A'', 20200301, []), (''A'', 20200101, []), (''A'', 20200201, [])]
                init_state)
     = Inr [(''A'', 20200301, 3), (''A'', 20200101, 0), (''A'', 20200201, 3)]"
  by code_simp

text \<open>
  C2: a registration numbers the new survey 1 + the count of the earlier-dated surveys of
  its site, adds 1 to the later-dated ones and leaves the earlier-dated and equal-dated
  ones alone. The program is run on two surveys of site A registered in date order:
  the registration of the second one takes the first from 1 to 0.
\<close>

theorem numbering_chronological_pair:
  "numbering (register_all [(''A'', 20200101, [])] init_state) = Inr [(''A'', 20200101, 1)]
   \<and> numbering (register_all [(''A'', 20200101, []), (''A'', 20200201, [])] init_state)
       = Inr [(''A'', 20200101, 0), (''A'', 20200201, 2)]"
  by code_simp

text \<open>
  C3: the numbers of the \<open>N\<close> surveys of a site are exactly 1 to \<open>N\<close>, equal dates
  included. The program is run on two surveys of site A with the same date: both end
  with the number 1.
\<close>

theorem numbering_equal_dates:
  "numbering (register_all [(''A'', 20200101, []), (''A'', 20200101, [])] init_state)
     = Inr [(''A'', 20200101, 1), (''A'', 20200101, 1)]"
  by code_simp

text \<open>
  C4: registering a survey of site \<open>a\<close> succeeds and leaves every survey registered
  before for another site as it was, in all its fields.
\<close>

theorem Survey_init_other_sites_unchanged:
  "\<exists>st'. Survey_init a d sp st = Inr st'
     \<and> (\<forall>i < length (all_surveys st). site (all_surveys st ! i) \<noteq> a \<longrightarrow> all_surveys st' ! i = all_surveys st ! i)"
proof -
  let ?s = "\<lparr> site = a, date = d, species = sp, phen_num = 0 \<rparr>"
  obtain self st1 where c: "calc_num_phenologies ?s st = Inr (self, st1)"
    and l: "length (all_surveys st1) = length (all_surveys st)"
    and f: "\<forall>i. site (all_surveys st ! i) \<noteq> site ?s \<longrightarrow> all_surveys st1 ! i = all_surveys st ! i"
    using calc_num_phenologies_frame [of ?s st] by blast
  show ?thesis using l f by (simp add: Survey_init_def c nth_append)
qed

theorem Survey_init_other_sites_unchanged_witness:
  "0 < length (all_surveys two_site_state)
   \<and> site (all_surveys two_site_state ! 0) \<noteq> ''A''
   \<and> (\<exists>st'. Survey_init ''A'' 20200101 [] two_site_state = Inr st'
          \<and> all_surveys st' ! 0 = all_surveys two_site_state ! 0)"
  using Survey_init_other_sites_unchanged [of "''A''" 20200101 "[]" two_site_state]
  by (force simp: two_site_state_def)

section \<open>Species records\<close>

text \<open>
  C8: a species record built from absent densities or units holds 0 in their place and
  never \<open>None\<close>; a value that is present is kept. Built from the name Grass, two absent
  densities and 5 units, the record holds 0, 0 and 5.
\<close>

theorem Species_init_defaults:
  "(a = CNone \<longrightarrow> dnf (Species_init name a b c) = CNum 0)
   \<and> (b = CNone \<longrightarrow> df (Species_init name a b c) = CNum 0)
   \<and> (c = CNone \<longrightarrow> fu (Species_init name a b c) = CNum 0)
   \<and> (a \<noteq> CNone \<longrightarrow> dnf (Species_init name a b c) = a)
   \<and> (b \<noteq> CNone \<longrightarrow> df (Species_init name a b c) = b)
   \<and> (c \<noteq> CNone \<longrightarrow> fu (Species_init name a b c) = c)
   \<and> dnf (Species_init name a b c) \<noteq> CNone
   \<and> df (Species_init name a b c) \<noteq> CNone
   \<and> fu (Species_init name a b c) \<noteq> CNone
   \<and> id_sp (Species_init name a b c) = name"
  by (simp add: Species_init_def)

theorem Species_init_defaults_witness:
  "dnf (Species_init ''Grass'' CNone CNone (CNum 5)) = CNum 0
   \<and> df (Species_init ''Grass'' CNone CNone (CNum 5)) = CNum 0
   \<and> fu (Species_init ''Grass'' CNone CNone (CNum 5)) = CNum 5"
  using Species_init_defaults [of CNone "''Grass''" CNone "CNum 5"]
  by simp

section \<open>The path of the saved workbook\<close>

text \<open>
  C9: the output path is the input path with \<open>_summarized\<close> before the extension, for
  every input path the program accepts. The program is run on \<open>survey.xlsx\<close> and on
  \<open>./survey.xlsx\<close>: the second path has two dots and the unpacking fails.
\<close>

theorem save_path_two_dots:
  "save_path ''survey.xlsx'' = Inr ''survey_summarized.xlsx''
   \<and> save_path ''./survey.xlsx'' = Inl ValueError"
  by code_simp

section \<open>The summary pass and the registry\<close>

text \<open>
  C10: the header writer, the three axis writers, the data fill and so the whole summary
  pass leave \<open>all_surveys\<close> and \<open>survey_dates\<close> as they were: no survey changes.
\<close>

theorem summary_pass_keeps_registry:
  "all_surveys (write_summary_headers ids st) = all_surveys st
   \<and> survey_dates (write_summary_headers ids st) = survey_dates st
   \<and> all_surveys (write_sites_to_rows sites st) = all_surveys st
   \<and> survey_dates (write_sites_to_rows sites st) = survey_dates st
   \<and> all_surveys (write_variables_to_rows n st) = all_surveys st
   \<and> survey_dates (write_variables_to_rows n st) = survey_dates st
   \<and> all_surveys (write_phenology_to_rows n st) = all_surveys st
   \<and> survey_dates (write_phenology_to_rows n st) = survey_dates st
   \<and> all_surveys (write_data_to_rows n ids st) = all_surveys st
   \<and> survey_dates (write_data_to_rows n ids st) = survey_dates st
   \<and> all_surveys (summarize all_species all_sites st) = all_surveys st
   \<and> survey_dates (summarize all_species all_sites st) = survey_dates st"
  by (simp add: summarize_def Let_def write_summary_headers_def write_sites_to_rows_def
      write_variables_to_rows_def write_phenology_to_rows_def write_data_to_rows_def)

section \<open>The layout and the contents of the Summary sheet\<close>

lemma summarize_header_cells:
  assumes "4 \<le> c" "c < 4 + length (remdups (map id_sp all_species))"
  shows "sum_ws (summarize all_species all_sites st) (Suc 0, c)
           = CStr (sort (remdups (map id_sp all_species)) ! (c - 4))"
proof -
  define A where "A = write_rows 3 (map CNum (phenology_list (length (remdups all_sites))))
           (write_rows 2 (map CStr (variables (length (remdups all_sites))))
             (write_rows 1 (map CStr (name_copy (sort (remdups all_sites))))
               (sum_ws (write_summary_headers (sort (remdups (map id_sp all_species)))
                   (st\<lparr>sum_ws := create_sheet\<rparr>)))))"
  have F: "fold (fill_row (all_surveys st) (sort (remdups (map id_sp all_species))))
             [2..<6 * length (remdups all_sites) + 2] A (Suc 0, c) = A (Suc 0, c)"
    by (subst fold_fill_rows) auto
  have "A (Suc 0, c) = CStr (sort (remdups (map id_sp all_species)) ! (c - 4))"
    using assms by (simp add: A_def write_rows_apply headers_first_row)
  then show ?thesis
    unfolding summarize_unfold A_def [symmetric] F .
qed

lemma variables_in_list: "r < 6 * n \<Longrightarrow> variables n ! r \<in> set VARIABLE_LIST"
proof -
  assume "r < 6 * n"
  then have "variables n ! r \<in> set (variables n)"
    by (intro nth_mem) (simp add: length_variables)
  then show ?thesis
    by (auto simp: variables_def split: if_splits)
qed

text \<open>
  C5: for any ingested sheets the Summary body has (number of distinct sites) x 3 x 2 rows:
  the three axis columns have that length, every row from 2 to that count + 1 carries a
  site, a variable and a phenology number, and every row below is blank.
\<close>

theorem summary_row_count:
  "let n = card (set all_sites); ws = sum_ws (summarize all_species all_sites st) in
     length (name_copy (sort (remdups all_sites))) = n * 3 * 2
   \<and> length (variables n) = n * 3 * 2
   \<and> length (phenology_list n) = n * 3 * 2
   \<and> (2 \<le> r \<and> r < n * 3 * 2 + 2 \<longrightarrow>
        (\<exists>X V K. ws (r, 1) = CStr X \<and> ws (r, 2) = CStr V \<and> ws (r, 3) = CNum K))
   \<and> (n * 3 * 2 + 2 \<le> r \<longrightarrow> ws (r, c) = CNone)"
proof -
  have n: "length (remdups all_sites) = card (set all_sites)"
    by (rule length_remdups_card_conv)
  show ?thesis
    unfolding Let_def n [symmetric]
    by (simp add: summarize_cells length_name_copy length_variables length_phenology_list
        VARIABLE_LIST_def NUM_PHENOLOGIES_def)
qed

theorem summary_row_count_witness:
  "card (set [''B'', ''A'', ''B'']) = 2
   \<and> (\<exists>X V K. sum_ws (summarize [] [''B'', ''A'', ''B''] init_state) (13, 1) = CStr X
             \<and> sum_ws (summarize [] [''B'', ''A'', ''B''] init_state) (13, 2) = CStr V
             \<and> sum_ws (summarize [] [''B'', ''A'', ''B''] init_state) (13, 3) = CNum K)
   \<and> sum_ws (summarize [] [''B'', ''A'', ''B''] init_state) (14, 1) = CNone"
proof -
  have n: "card (set [''B'', ''A'', ''B'']) = 2"
    using length_remdups_card_conv [of "[''B'', ''A'', ''B'']"] by simp
  note t13 = summary_row_count [where all_sites = "[''B'', ''A'', ''B'']" and all_species = "[]"
        and st = init_state and r = 13 and c = 1, unfolded Let_def n]
  note t14 = summary_row_count [where all_sites = "[''B'', ''A'', ''B'']" and all_species = "[]"
        and st = init_state and r = 14 and c = 1, unfolded Let_def n]
  have a: "\<exists>X V K. sum_ws (summarize [] [''B'', ''A'', ''B''] init_state) (13, 1) = CStr X
             \<and> sum_ws (summarize [] [''B'', ''A'', ''B''] init_state) (13, 2) = CStr V
             \<and> sum_ws (summarize [] [''B'', ''A'', ''B''] init_state) (13, 3) = CNum K"
    using t13 by simp
  have b: "sum_ws (summarize [] [''B'', ''A'', ''B''] init_state) (14, 1) = CNone"
    using t14 by simp
  show ?thesis
    using a b by (simp only: n simp_thms)
qed

text \<open>
  C6: the site column of the Summary body is the sorted list of distinct sites tiled 6
  times; the variable column is the blocks DF, DNF, FU, each of 2 x (number of sites)
  rows; the phenology column is (number of sites) times 1, then as many times 2, and that
  block three times.
\<close>

theorem summary_axis_columns:
  "let sites = sort (remdups all_sites); n = card (set all_sites);
       ws = sum_ws (summarize all_species all_sites st) in
     sorted sites \<and> distinct sites \<and> set sites = set all_sites \<and> length sites = n
   \<and> map (\<lambda>i. ws (i + 2, 1)) [0..<6 * n] = map CStr (concat (replicate 6 sites))
   \<and> map (\<lambda>i. ws (i + 2, 2)) [0..<6 * n]
       = map CStr (replicate (2 * n) ''DF'' @ replicate (2 * n) ''DNF'' @ replicate (2 * n) ''FU'')
   \<and> map (\<lambda>i. ws (i + 2, 3)) [0..<6 * n]
       = map CNum (concat (replicate 3 (replicate n 1 @ replicate n 2)))"
proof -
  let ?n = "length (remdups all_sites)"
  let ?ws = "sum_ws (summarize all_species all_sites st)"
  have n: "?n = card (set all_sites)"
    by (rule length_remdups_card_conv)
  have nc: "name_copy xs = concat (replicate 6 xs)" for xs
    by (simp add: name_copy_def VARIABLE_LIST_def NUM_PHENOLOGIES_def)
  have c1: "map (\<lambda>i. ?ws (i + 2, 1)) [0..<6 * ?n] = map CStr (name_copy (sort (remdups all_sites)))"
    by (rule nth_equalityI) (simp_all add: summarize_cells length_name_copy)
  have c2: "map (\<lambda>i. ?ws (i + 2, 2)) [0..<6 * ?n] = map CStr (variables ?n)"
    by (rule nth_equalityI) (simp_all add: summarize_cells length_variables)
  have c3: "map (\<lambda>i. ?ws (i + 2, 3)) [0..<6 * ?n] = map CNum (phenology_list ?n)"
    by (rule nth_equalityI) (simp_all add: summarize_cells length_phenology_list)
  show ?thesis
    unfolding Let_def n [symmetric] c1 c2 c3 nc
    by (simp add: variables_blocks phenology_blocks)
qed

text \<open>
  C7: the body cell at the row of site \<open>X\<close>, variable \<open>V\<close>, phenology \<open>K\<close> and the column
  of species \<open>Y\<close> holds the field selected by \<open>V\<close> of the one record named \<open>Y\<close> in the one
  survey of site \<open>X\<close> numbered \<open>K\<close>, and is blank when the survey or the record is
  missing or not unique.
\<close>

theorem summary_fill:
  assumes r: "r < 6 * card (set all_sites)"
    and j: "j < card (set (map id_sp all_species))"
  shows "let sites = sort (remdups all_sites);
             ids = sort (remdups (map id_sp all_species));
             n = card (set all_sites);
             ws = sum_ws (summarize all_species all_sites st);
             X = name_copy sites ! r;
             V = variables n ! r;
             K = phenology_list n ! r;
             Y = ids ! j
         in ws (1, j + 4) = CStr Y
          \<and> ws (r + 2, 1) = CStr X \<and> ws (r + 2, 2) = CStr V \<and> ws (r + 2, 3) = CNum K
          \<and> V \<in> set VARIABLE_LIST
          \<and> ws (r + 2, j + 4)
              = (case filter (\<lambda>s. site s = X \<and> phen_num s = K) (all_surveys st) of
                   [s] \<Rightarrow> (case filter (\<lambda>sp. id_sp sp = Y) (species s) of
                             [sp] \<Rightarrow> (if V = ''DNF'' then dnf sp
                                      else if V = ''DF'' then df sp
                                      else fu sp)
                           | _ \<Rightarrow> CNone)
                 | _ \<Rightarrow> CNone)"
proof -
  let ?n = "length (remdups all_sites)"
  let ?ws = "sum_ws (summarize all_species all_sites st)"
  have r': "r < 6 * ?n"
    using r by (simp add: length_remdups_card_conv)
  have j': "j < length (remdups (map id_sp all_species))"
    using j by (simp add: length_remdups_card_conv)
  have V: "variables ?n ! r \<in> set VARIABLE_LIST"
    using r' by (rule variables_in_list)
  have h: "?ws (Suc 0, j + 4) = CStr (sort (remdups (map id_sp all_species)) ! j)"
    using summarize_header_cells [of "j + 4" all_species all_sites st] j' by simp
  have c1: "?ws (r + 2, Suc 0) = CStr (name_copy (sort (remdups all_sites)) ! r)"
    using r' by (simp add: summarize_cells)
  have c2: "?ws (r + 2, 2) = CStr (variables ?n ! r)"
    using r' by (simp add: summarize_cells)
  have c3: "?ws (r + 2, 3) = CNum (phenology_list ?n ! r)"
    using r' by (simp add: summarize_cells)
  have d: "?ws (r + 2, j + 4)
             = (case find_datum (all_surveys st)
                       (CStr (name_copy (sort (remdups all_sites)) ! r))
                       (CStr (variables ?n ! r))
                       (CNum (phenology_list ?n ! r))
                       (sort (remdups (map id_sp all_species)) ! j) of
                  Some datum \<Rightarrow> datum | None \<Rightarrow> CNone)"
    using r' j' by (simp add: summarize_cells)
  have e: "(case find_datum S (CStr X) (CStr V) (CNum K) Y of
              Some datum \<Rightarrow> datum | None \<Rightarrow> CNone)
           = (case filter (\<lambda>s. site s = X \<and> phen_num s = K) S of
                [s] \<Rightarrow> (case filter (\<lambda>sp. id_sp sp = Y) (species s) of
                          [sp] \<Rightarrow> (if V = ''DNF'' then dnf sp
                                   else if V = ''DF'' then df sp
                                   else fu sp)
                        | _ \<Rightarrow> CNone)
              | _ \<Rightarrow> CNone)"
    if "V \<in> set VARIABLE_LIST" for S X V K Y
    using that by (auto simp: find_datum_cases VARIABLE_LIST_def split: list.splits)
  show ?thesis
    using h c1 c2 c3 V d [unfolded e [OF V]]
    unfolding Let_def length_remdups_card_conv [symmetric] by simp
qed

theorem summary_fill_witness:
  "(0::nat) < 6 * card (set [''A''])
   \<and> (0::nat) < card (set (map id_sp [grass]))
   \<and> sum_ws (summarize [grass] [''A''] one_survey_state) (1, 4) = CStr ''Grass''
   \<and> sum_ws (summarize [grass] [''A''] one_survey_state) (2, 1) = CStr ''A''
   \<and> sum_ws (summarize [grass] [''A''] one_survey_state) (2, 2) = CStr ''DF''
   \<and> sum_ws (summarize [grass] [''A''] one_survey_state) (2, 3) = CNum 1
   \<and> sum_ws (summarize [grass] [''A''] one_survey_state) (2, 4) = CNum 7"
  using summary_fill [where all_sites = "[''A'']" and all_species = "[grass]"
      and st = one_survey_state and r = 0 and j = 0]
  by (simp add: Let_def name_copy_def variables_blocks phenology_blocks VARIABLE_LIST_def
      NUM_PHENOLOGIES_def one_survey_state_def grass_def numeral_2_eq_2 numeral_3_eq_3)

end
